theory Spec2Isabelle
  imports Main "HOL-Library.Char_ord" "HOL-Library.List_Lexorder"
begin

section \<open>Strings\<close>

text \<open>
  Go strings are byte sequences; they are modelled as \<open>string\<close> (a \<open>char list\<close>), and
  Go's \<open>==\<close> and \<open><\<close> on strings are equality and the bytewise lexicographic order
  (\<open>Char_ord\<close> with \<open>List_Lexorder\<close>).  The functions of package \<open>strings\<close> that the
  operator calls are modelled on ASCII text: \<open>isSpace\<close> is the ASCII part of
  \<open>unicode.IsSpace\<close> (tab, line feed, vertical tab, form feed, carriage return, space),
  and the case mappings change the letters A-Z and a-z only.
\<close>

definition isSpace :: "char \<Rightarrow> bool" where
  "isSpace c = (c \<in> set [CHR 0x09, CHR 0x0A, CHR 0x0B, CHR 0x0C, CHR 0x0D, CHR 0x20])"

text \<open>\<open>strings.TrimSpace\<close>: leading and trailing white space removed.\<close>

definition TrimSpace :: "string \<Rightarrow> string" where
  "TrimSpace s = rev (dropWhile isSpace (rev (dropWhile isSpace s)))"

definition toLowerChar :: "char \<Rightarrow> char" where
  "toLowerChar c =
     (case map_of (zip ''ABCDEFGHIJKLMNOPQRSTUVWXYZ'' ''abcdefghijklmnopqrstuvwxyz'') c of
        Some l \<Rightarrow> l
      | None \<Rightarrow> c)"

definition toUpperChar :: "char \<Rightarrow> char" where
  "toUpperChar c =
     (case map_of (zip ''abcdefghijklmnopqrstuvwxyz'' ''ABCDEFGHIJKLMNOPQRSTUVWXYZ'') c of
        Some u \<Rightarrow> u
      | None \<Rightarrow> c)"

definition ToLower :: "string \<Rightarrow> string" where
  "ToLower s = map toLowerChar s"

definition ToUpper :: "string \<Rightarrow> string" where
  "ToUpper s = map toUpperChar s"

text \<open>\<open>strings.EqualFold\<close>: equality up to the case of letters.\<close>

definition EqualFold :: "string \<Rightarrow> string \<Rightarrow> bool" where
  "EqualFold s t = (ToLower s = ToLower t)"

text \<open>
  \<open>strings.Split(s, sep)\<close> for a one-byte separator: the pieces of \<open>s\<close> between the
  occurrences of \<open>sep\<close>; the empty string gives one empty piece.
\<close>

fun Split :: "string \<Rightarrow> char \<Rightarrow> string list" where
  "Split [] sep = [[]]"
| "Split (c # cs) sep =
     (if c = sep then [] # Split cs sep
      else (case Split cs sep of
              [] \<Rightarrow> [[c]]
            | w # ws \<Rightarrow> (c # w) # ws))"

text \<open>
  \<open>strings.FieldsFunc(s, f)\<close>: the maximal runs of bytes that do not satisfy \<open>f\<close>;
  empty runs are dropped.
\<close>

fun FieldsFunc :: "string \<Rightarrow> (char \<Rightarrow> bool) \<Rightarrow> string list" where
  "FieldsFunc [] f = []"
| "FieldsFunc (c # cs) f =
     (if f c then FieldsFunc cs f
      else (case cs of
              [] \<Rightarrow> [[c]]
            | d # ds \<Rightarrow>
                (if f d then [c] # FieldsFunc cs f
                 else (case FieldsFunc cs f of
                         [] \<Rightarrow> [[c]]
                       | w # ws \<Rightarrow> (c # w) # ws))))"

section \<open>Decoded JSON documents\<close>

text \<open>
  What \<open>encoding/json\<close> decodes into a value of type \<open>any\<close>: \<open>nil\<close>, \<open>bool\<close>,
  \<open>float64\<close>, \<open>string\<close>, \<open>[]any\<close> and \<open>map[string]any\<close>.  A Go map is an association
  list read with \<open>map_of\<close> (the operator only looks keys up); the payload of a number
  is never inspected by the operator and is kept as an integer.
\<close>

datatype json =
    JNull
  | JBool bool
  | JNum int
  | JStr string
  | JArr "json list"
  | JObj "(string \<times> json) list"

type_synonym jsonmap = "(string \<times> json) list"

text \<open>The type assertion \<open>m[k].(string)\<close>, with its \<open>ok\<close> flag as an option.\<close>

definition asString :: "jsonmap \<Rightarrow> string \<Rightarrow> string option" where
  "asString m k = (case map_of m k of Some (JStr s) \<Rightarrow> Some s | _ \<Rightarrow> None)"

text \<open>\<open>s, _ := m[k].(string)\<close>: the empty string when the assertion fails.\<close>

definition stringOrEmpty :: "jsonmap \<Rightarrow> string \<Rightarrow> string" where
  "stringOrEmpty m k = (case asString m k of Some s \<Rightarrow> s | None \<Rightarrow> [])"

text \<open>The type assertion \<open>m[k].([]any)\<close>.\<close>

definition asArray :: "jsonmap \<Rightarrow> string \<Rightarrow> json list option" where
  "asArray m k = (case map_of m k of Some (JArr xs) \<Rightarrow> Some xs | _ \<Rightarrow> None)"

section \<open>Errors\<close>

text \<open>
  Every error value the operator builds is a constructor; the formatted message of the
  source is given beside it.  \<open>ClientError\<close> stands for an error handed back by the
  HTTP transport or by the Kubernetes client.
\<close>

datatype error =
    ClientError string
  | UnexpectedStatus nat  \<comment> \<open>unexpected status: %s\<close>
  | DecodeError  \<comment> \<open>the JSON decoder's error\<close>
  | MissingPrefixes  \<comment> \<open>missing prefixes\<close>
  | NoCIDRsFoundForRoles "string list"  \<comment> \<open>no CIDRs found for roles: %v\<close>
  | ProviderReturnedNoCIDRs  \<comment> \<open>provider returned no CIDRs\<close>
  | SegmentNotAnObject string  \<comment> \<open>segment %q not an object\<close>
  | MissingSegment string  \<comment> \<open>missing segment %q\<close>
  | ArrayValueNeitherStringNorObject json
  | UnsupportedJSONFieldType json  \<comment> \<open>unsupported JSON field type %T\<close>
  | KubeClientNotConfigured
  | FetchingSecret string string error  \<comment> \<open>fetching secret %s: %w\<close>
  | SecretMissingKey string string string  \<comment> \<open>secret %s missing key %s\<close>
  | ConfigMapMissingKey string  \<comment> \<open>configmap missing key: %s\<close>
  | ConfigMapRequiresConfiguration
  | ConfigMapRequiresNameAndKey
  | JSONEndpointRequiresConfiguration
  | JSONEndpointRequiresURLAndFieldPath
  | HeaderSecretRefsRequiresName
  | HeaderSecretRefsRequiresSecretNameAndKey
  | UnsupportedProvider string  \<comment> \<open>unsupported provider: %s\<close>
  | SchemeError
  | NotControlledByBotNetworkPolicy string string
      \<comment> \<open>networkpolicy %s/%s exists and is not controlled by BotNetworkPolicy\<close>

section \<open>The sanitizer\<close>

text \<open>
  \<open>sanitize\<close> (package providers): the loop appends the trimmed form of every entry
  that is not empty after trimming; an empty result is an error.
\<close>

fun sanitizeLoop :: "string list \<Rightarrow> string list \<Rightarrow> string list" where
  "sanitizeLoop [] results = results"
| "sanitizeLoop (cidr # cidrs) results =
     (let trimmed = TrimSpace cidr
      in if trimmed = [] then sanitizeLoop cidrs results
         else sanitizeLoop cidrs (results @ [trimmed]))"

definition sanitize :: "string list \<Rightarrow> error + string list" where
  "sanitize cidrs =
     (let results = sanitizeLoop cidrs []
      in if length results = 0 then Inl ProviderReturnedNoCIDRs else Inr results)"

section \<open>JSON path navigation\<close>

text \<open>
  \<open>navigateField\<close>: the loop over the segments of the path, starting at the whole
  document.
\<close>

fun navigateSegments :: "json \<Rightarrow> string list \<Rightarrow> error + json" where
  "navigateSegments current [] = Inr current"
| "navigateSegments current (segment # segments) =
     (if segment = [] then navigateSegments current segments
      else (case current of
              JObj m \<Rightarrow>
                (case map_of m segment of
                   None \<Rightarrow> Inl (MissingSegment segment)
                 | Some next \<Rightarrow> navigateSegments next segments)
            | _ \<Rightarrow> Inl (SegmentNotAnObject segment)))"

definition navigateField :: "json \<Rightarrow> string \<Rightarrow> error + json" where
  "navigateField input path = navigateSegments input (Split path (CHR ''.''))"

section \<open>Selectors of the static HTTP providers\<close>

text \<open>
  An entry \<open>item[k]\<close> that is a string and is not blank gives one result, trimmed
  (the \<open>if value := strings.TrimSpace(..); value != ""\<close> blocks of the selectors).
\<close>

definition prefixValue :: "jsonmap \<Rightarrow> string \<Rightarrow> string list" where
  "prefixValue item k =
     (case asString item k of
        Some s \<Rightarrow> (let v = TrimSpace s in if v \<noteq> [] then [v] else [])
      | None \<Rightarrow> [])"

text \<open>
  \<open>googleSelectorWithScope\<close>.  \<open>scopeMap\<close> is the set of keys of the source's
  \<open>map[string]bool\<close>; an element of \<open>prefixes\<close> that is not an object is skipped.
\<close>

fun googleLoop :: "string set \<Rightarrow> json list \<Rightarrow> string list \<Rightarrow> string list" where
  "googleLoop scopeMap [] results = results"
| "googleLoop scopeMap (prefix # rest) results =
     (case prefix of
        JObj item \<Rightarrow>
          (if scopeMap \<noteq> {} \<and> ToLower (TrimSpace (stringOrEmpty item ''scope'')) \<notin> scopeMap
           then googleLoop scopeMap rest results
           else googleLoop scopeMap rest
                  (results @ prefixValue item ''ipv4Prefix'' @ prefixValue item ''ipv6Prefix''))
      | _ \<Rightarrow> googleLoop scopeMap rest results)"

definition googleSelectorWithScope :: "jsonmap \<Rightarrow> string list \<Rightarrow> error + string list" where
  "googleSelectorWithScope data scopes =
     (case asArray data ''prefixes'' of
        None \<Rightarrow> Inl MissingPrefixes
      | Some prefixesRaw \<Rightarrow>
          Inr (googleLoop (set (map (\<lambda>scope. ToLower (TrimSpace scope)) scopes)) prefixesRaw []))"

definition googleSelector :: "jsonmap \<Rightarrow> error + string list" where
  "googleSelector data = googleSelectorWithScope data []"

text \<open>
  \<open>awsSelectorWithFilter\<close>: a filter whose map is empty is off; the three filters are
  tested one after the other and a record that fails one is skipped.
\<close>

fun awsLoop ::
  "string set \<Rightarrow> string set \<Rightarrow> string set \<Rightarrow> json list \<Rightarrow> string list \<Rightarrow> string list" where
  "awsLoop serviceMap regionMap nbgMap [] results = results"
| "awsLoop serviceMap regionMap nbgMap (prefix # rest) results =
     (case prefix of
        JObj item \<Rightarrow>
          (if serviceMap \<noteq> {} \<and> ToUpper (TrimSpace (stringOrEmpty item ''service'')) \<notin> serviceMap
           then awsLoop serviceMap regionMap nbgMap rest results
           else if regionMap \<noteq> {} \<and> ToLower (TrimSpace (stringOrEmpty item ''region'')) \<notin> regionMap
           then awsLoop serviceMap regionMap nbgMap rest results
           else if nbgMap \<noteq> {} \<and>
                   ToLower (TrimSpace (stringOrEmpty item ''network_border_group'')) \<notin> nbgMap
           then awsLoop serviceMap regionMap nbgMap rest results
           else awsLoop serviceMap regionMap nbgMap rest (results @ prefixValue item ''ip_prefix''))
      | _ \<Rightarrow> awsLoop serviceMap regionMap nbgMap rest results)"

definition awsSelectorWithFilter ::
  "jsonmap \<Rightarrow> string list \<Rightarrow> string list \<Rightarrow> string list \<Rightarrow> error + string list" where
  "awsSelectorWithFilter data services regions networkBorderGroups =
     (case asArray data ''prefixes'' of
        None \<Rightarrow> Inl MissingPrefixes
      | Some prefixesRaw \<Rightarrow>
          Inr (awsLoop (set (map (\<lambda>svc. ToUpper (TrimSpace svc)) services))
                 (set (map (\<lambda>reg. ToLower (TrimSpace reg)) regions))
                 (set (map (\<lambda>nbg. ToLower (TrimSpace nbg)) networkBorderGroups))
                 prefixesRaw []))"


text \<open>
  \<open>githubSelectorWithRoles\<close>: the inner loop keeps the string elements of a role's
  array that are not blank; a role whose key is missing or is not an array is skipped.
\<close>

fun githubItems :: "json list \<Rightarrow> string list \<Rightarrow> string list" where
  "githubItems [] results = results"
| "githubItems (item # rest) results =
     (case item of
        JStr cidr \<Rightarrow>
          (let v = TrimSpace cidr
           in if v \<noteq> [] then githubItems rest (results @ [v]) else githubItems rest results)
      | _ \<Rightarrow> githubItems rest results)"

fun githubRoles :: "jsonmap \<Rightarrow> string list \<Rightarrow> string list \<Rightarrow> string list" where
  "githubRoles data [] results = results"
| "githubRoles data (role # rest) results =
     (case asArray data (ToLower (TrimSpace role)) of
        None \<Rightarrow> githubRoles data rest results
      | Some roleData \<Rightarrow> githubRoles data rest (githubItems roleData results))"

definition githubSelectorWithRoles :: "jsonmap \<Rightarrow> string list \<Rightarrow> error + string list" where
  "githubSelectorWithRoles data roles0 =
     (let roles = (if length roles0 = 0 then [''hooks''] else roles0);
          results = githubRoles data roles []
      in if length results = 0 then Inl (NoCIDRsFoundForRoles roles) else Inr results)"

text \<open>
  \<open>strings.Contains(err.Error(), "no CIDRs found")\<close>: of the messages above only the
  one of \<open>NoCIDRsFoundForRoles\<close> holds that text.
\<close>

definition containsNoCIDRsFound :: "error \<Rightarrow> bool" where
  "containsNoCIDRsFound err = (case err of NoCIDRsFoundForRoles _ \<Rightarrow> True | _ \<Rightarrow> False)"

definition githubSelector :: "jsonmap \<Rightarrow> error + string list" where
  "githubSelector data =
     (let emptyHooksArray =
            (case map_of data ''hooks'' of Some (JArr arr) \<Rightarrow> length arr = 0 | _ \<Rightarrow> False)
      in case githubSelectorWithRoles data [] of
           Inl err \<Rightarrow>
             (if emptyHooksArray \<and> containsNoCIDRsFound err then Inr [] else Inl err)
         | Inr results \<Rightarrow> Inr results)"

section \<open>Interpreting the value under a JSON path\<close>

record fieldCondition =
  condField :: string
  condValues :: "string list"

text \<open>\<open>matchesFilter\<close>: every condition must hold; the inner loop is an existence test.\<close>

fun matchesFilter :: "jsonmap \<Rightarrow> fieldCondition list \<Rightarrow> bool" where
  "matchesFilter obj [] = True"
| "matchesFilter obj (condition # rest) =
     (case map_of obj (condField condition) of
        None \<Rightarrow> False
      | Some fieldValue \<Rightarrow>
          (case fieldValue of
             JStr fieldStr \<Rightarrow>
               (if length (condValues condition) = 0 then matchesFilter obj rest
                else if list_ex (\<lambda>allowedValue.
                          EqualFold (TrimSpace fieldStr) (TrimSpace allowedValue))
                        (condValues condition)
                then matchesFilter obj rest
                else False)
           | _ \<Rightarrow> False))"

fun extractLoop :: "jsonmap \<Rightarrow> string list \<Rightarrow> string" where
  "extractLoop obj [] = []"
| "extractLoop obj (fld # rest) =
     (case asString obj fld of
        Some v \<Rightarrow> (let trimmed = TrimSpace v in if trimmed \<noteq> [] then trimmed else extractLoop obj rest)
      | None \<Rightarrow> extractLoop obj rest)"

definition extractCIDRFromObject :: "jsonmap \<Rightarrow> string" where
  "extractCIDRFromObject obj =
     extractLoop obj [''ip_prefix'', ''ipv4Prefix'', ''ipv6Prefix'', ''cidr'', ''ipPrefix'', ''ip'']"

fun interpretLoop ::
  "json list \<Rightarrow> fieldCondition list option \<Rightarrow> string list \<Rightarrow> error + string list" where
  "interpretLoop [] flt cidrs = Inr cidrs"
| "interpretLoop (item # rest) flt cidrs =
     (case item of
        JStr str \<Rightarrow> interpretLoop rest flt (cidrs @ [str])
      | JObj obj \<Rightarrow>
          (if flt \<noteq> None \<and> \<not> matchesFilter obj (the flt)
           then interpretLoop rest flt cidrs
           else (let cidr = extractCIDRFromObject obj
                 in if cidr \<noteq> [] then interpretLoop rest flt (cidrs @ [cidr])
                    else interpretLoop rest flt cidrs))
      | _ \<Rightarrow> Inl (ArrayValueNeitherStringNorObject item))"

definition interpretCIDRs :: "json \<Rightarrow> fieldCondition list option \<Rightarrow> error + string list" where
  "interpretCIDRs v flt =
     (case v of
        JArr xs \<Rightarrow> interpretLoop xs flt []
      | JStr s \<Rightarrow> Inr [s]
      | _ \<Rightarrow> Inl (UnsupportedJSONFieldType v))"

section \<open>The API types and their validation\<close>

record ConfigMapProviderSpec =
  cmName :: string
  cmNamespace :: string
  cmKey :: string

text \<open>\<open>corev1.SecretKeySelector\<close>: the name of the secret and the key in it.\<close>

record SecretKeySelector =
  sksName :: string
  sksKey :: string

record HTTPHeaderSecretRef =
  hsrName :: string
  hsrSecretKeyRef :: SecretKeySelector

text \<open>
  Modelled from the spec: the type declarations of the \<open>Google\<close>, \<open>AWS\<close> and \<open>GitHub\<close>
  blocks of a provider declaration and of the \<open>Filter\<close> block of a JSON endpoint are not
  in \<open>api/v1alpha1/botnetworkpolicy_types.go\<close>; \<open>Factory.FromSpec\<close> reads them.  Their
  fields are the ones \<open>FromSpec\<close> reads: an optional URL override (empty when absent)
  and the filter lists; a field condition has a field name and a list of values.
\<close>

record GoogleProviderSpec =
  gURL :: string
  gScope :: "string list"

record AWSProviderSpec =
  awsURL :: string
  awsServices :: "string list"
  awsRegions :: "string list"
  awsNetworkBorderGroups :: "string list"

record GitHubProviderSpec =
  ghURL :: string
  ghRoles :: "string list"

record FieldConditionSpec =
  fcField :: string
  fcValues :: "string list"

record JSONFilterSpec =
  FieldConditions :: "FieldConditionSpec list"

record JSONEndpointProviderSpec =
  jeURL :: string
  jeFieldPath :: string
  jeHeaders :: "(string \<times> string) list"
  jeHeaderSecretRefs :: "HTTPHeaderSecretRef list"
  jeFilter :: "JSONFilterSpec option"

text \<open>A pointer field of the source that may be \<open>nil\<close> is an option.\<close>

record ProviderSpec =
  psName :: string
  psGoogle :: "GoogleProviderSpec option"
  psAWS :: "AWSProviderSpec option"
  psGitHub :: "GitHubProviderSpec option"
  psConfigMap :: "ConfigMapProviderSpec option"
  psJSONEndpoint :: "JSONEndpointProviderSpec option"

text \<open>The loop of \<open>ProviderSpec.Validate\<close> over the header references of a JSON endpoint.\<close>

fun validateHeaderRefs :: "HTTPHeaderSecretRef list \<Rightarrow> error option" where
  "validateHeaderRefs [] = None"
| "validateHeaderRefs (headerRef # rest) =
     (if TrimSpace (hsrName headerRef) = [] then Some HeaderSecretRefsRequiresName
      else if sksName (hsrSecretKeyRef headerRef) = [] \<or> sksKey (hsrSecretKeyRef headerRef) = []
      then Some HeaderSecretRefsRequiresSecretNameAndKey
      else validateHeaderRefs rest)"

text \<open>\<open>ProviderSpec.Validate\<close>; \<open>None\<close> is the \<open>nil\<close> error.\<close>

definition Validate :: "ProviderSpec \<Rightarrow> error option" where
  "Validate p =
     (let n = ToLower (psName p)
      in if n = ''google'' \<or> n = ''aws'' \<or> n = ''github'' then None
         else if n = ''configmap'' then
           (case psConfigMap p of
              None \<Rightarrow> Some ConfigMapRequiresConfiguration
            | Some cm \<Rightarrow>
                (if cmName cm = [] \<or> cmKey cm = [] then Some ConfigMapRequiresNameAndKey
                 else None))
         else if n = ''jsonendpoint'' then
           (case psJSONEndpoint p of
              None \<Rightarrow> Some JSONEndpointRequiresConfiguration
            | Some je \<Rightarrow>
                (if jeURL je = [] \<or> jeFieldPath je = []
                 then Some JSONEndpointRequiresURLAndFieldPath
                 else validateHeaderRefs (jeHeaderSecretRefs je)))
         else Some (UnsupportedProvider (psName p)))"

text \<open>\<open>ExtractCIDRs\<close>: the tokens between line feeds, commas and semicolons, trimmed.\<close>

definition ExtractCIDRs :: "string \<Rightarrow> string list" where
  "ExtractCIDRs payload =
     filter (\<lambda>trimmed. trimmed \<noteq> [])
       (map TrimSpace
          (FieldsFunc payload (\<lambda>r. r = CHR 0x0A \<or> r = CHR '','' \<or> r = CHR '';'')))"

section \<open>Providers and the factory\<close>

record secretHeaderRef =
  shName :: string
  shSelector :: SecretKeySelector

text \<open>
  \<open>jepKubeClient\<close> says whether the provider's \<open>kubeClient\<close> is set (not \<open>nil\<close>); the
  HTTP client and the cluster behind the Kubernetes client are the \<open>world\<close> below.  The
  headers are the pairs of name and value in the order they are added; the canonical
  spelling that \<open>http.Header\<close> gives a name is left to the transport.
\<close>

record jsonEndpointProvider =
  jepKubeClient :: bool
  jepNamespace :: string
  jepURL :: string
  jepFieldPath :: string
  jepHeaders :: "(string \<times> string) list"
  jepSecretHeaders :: "secretHeaderRef list"
  jepFilter :: "fieldCondition list option"

text \<open>
  The three implementations of the interface \<open>Provider\<close>.  The selector of a static
  HTTP provider is a closure, here a function.
\<close>

datatype Provider =
    StaticHTTPProvider string "jsonmap \<Rightarrow> error + string list"
  | ConfigMapProvider string string string
  | JSONEndpointProvider jsonEndpointProvider

record Factory =
  kubeClient :: bool
  googleEndpoint :: string
  awsEndpoint :: string
  githubEndpoint :: string

definition defaultGoogleEndpoint :: string where
  "defaultGoogleEndpoint = ''https://www.gstatic.com/ipranges/goog.json''"

definition defaultAWSEndpoint :: string where
  "defaultAWSEndpoint = ''https://ip-ranges.amazonaws.com/ip-ranges.json''"

definition defaultGitHubEndpoint :: string where
  "defaultGitHubEndpoint = ''https://api.github.com/meta''"

text \<open>\<open>NewFactory\<close> without options.\<close>

definition NewFactory :: "bool \<Rightarrow> Factory" where
  "NewFactory kube =
     \<lparr>kubeClient = kube, googleEndpoint = defaultGoogleEndpoint,
      awsEndpoint = defaultAWSEndpoint, githubEndpoint = defaultGitHubEndpoint\<rparr>"

text \<open>
  \<open>Factory.FromSpec\<close>.  After \<open>Validate\<close> has passed, the block of a \<open>configmap\<close> or
  \<open>jsonendpoint\<close> declaration is present; the \<open>None\<close> branches below are never taken
  and repeat the error of \<open>Validate\<close>.
\<close>

definition FromSpec :: "Factory \<Rightarrow> string \<Rightarrow> ProviderSpec \<Rightarrow> error + Provider" where
  "FromSpec f namespace spec =
     (case Validate spec of
        Some err \<Rightarrow> Inl err
      | None \<Rightarrow>
         (let n = ToLower (psName spec)
          in if n = ''google'' then
               (let url = (case psGoogle spec of
                             Some g \<Rightarrow> if gURL g \<noteq> [] then gURL g else googleEndpoint f
                           | None \<Rightarrow> googleEndpoint f);
                    scopes = (case psGoogle spec of Some g \<Rightarrow> gScope g | None \<Rightarrow> [])
                in Inr (StaticHTTPProvider url (\<lambda>data. googleSelectorWithScope data scopes)))
             else if n = ''aws'' then
               (let url = (case psAWS spec of
                             Some a \<Rightarrow> if awsURL a \<noteq> [] then awsURL a else awsEndpoint f
                           | None \<Rightarrow> awsEndpoint f);
                    services = (case psAWS spec of Some a \<Rightarrow> awsServices a | None \<Rightarrow> []);
                    regions = (case psAWS spec of Some a \<Rightarrow> awsRegions a | None \<Rightarrow> []);
                    nbgs = (case psAWS spec of Some a \<Rightarrow> awsNetworkBorderGroups a | None \<Rightarrow> [])
                in Inr (StaticHTTPProvider url
                          (\<lambda>data. awsSelectorWithFilter data services regions nbgs)))
             else if n = ''github'' then
               (let url = (case psGitHub spec of
                             Some g \<Rightarrow> if ghURL g \<noteq> [] then ghURL g else githubEndpoint f
                           | None \<Rightarrow> githubEndpoint f);
                    roles = (case psGitHub spec of Some g \<Rightarrow> ghRoles g | None \<Rightarrow> [])
                in Inr (StaticHTTPProvider url (\<lambda>data. githubSelectorWithRoles data roles)))
             else if n = ''configmap'' then
               (case psConfigMap spec of
                  None \<Rightarrow> Inl ConfigMapRequiresConfiguration
                | Some cfg \<Rightarrow>
                    Inr (ConfigMapProvider
                           (if cmNamespace cfg = [] then namespace else cmNamespace cfg)
                           (cmName cfg) (cmKey cfg)))
             else if n = ''jsonendpoint'' then
               (case psJSONEndpoint spec of
                  None \<Rightarrow> Inl JSONEndpointRequiresConfiguration
                | Some cfg \<Rightarrow>
                    Inr (JSONEndpointProvider
                      \<lparr>jepKubeClient = kubeClient f,
                       jepNamespace = namespace,
                       jepURL = jeURL cfg,
                       jepFieldPath = jeFieldPath cfg,
                       jepHeaders = jeHeaders cfg,
                       jepSecretHeaders =
                         map (\<lambda>ref. \<lparr>shName = hsrName ref, shSelector = hsrSecretKeyRef ref\<rparr>)
                           (jeHeaderSecretRefs cfg),
                       jepFilter =
                         (case jeFilter cfg of
                            None \<Rightarrow> None
                          | Some fl \<Rightarrow>
                              (if length (FieldConditions fl) > 0
                               then Some (map (\<lambda>fc. \<lparr>condField = fcField fc,
                                                       condValues = fcValues fc\<rparr>)
                                            (FieldConditions fl))
                               else None))\<rparr>))
             else Inl (UnsupportedProvider (psName spec))))"

section \<open>Fetching\<close>

text \<open>
  What a provider reads from outside the process: \<open>httpDo url headers\<close> is the outcome
  of the GET request, an error of the transport or the status code with the decoded
  body (\<open>None\<close> when the body is not JSON); \<open>getSecret\<close> and \<open>getConfigMap\<close> take a
  namespace and a name and give the object's data or the client's error.
\<close>

record world =
  httpDo :: "string \<Rightarrow> (string \<times> string) list \<Rightarrow> error + nat \<times> json option"
  getSecret :: "string \<Rightarrow> string \<Rightarrow> error + (string \<times> string) list"
  getConfigMap :: "string \<Rightarrow> string \<Rightarrow> error + (string \<times> string) list"

text \<open>
  Decoding the body into a \<open>map[string]any\<close>: an object gives its map, \<open>null\<close> leaves
  the map \<open>nil\<close> (every lookup misses), any other value is the decoder's error.
\<close>

definition decodeObject :: "json option \<Rightarrow> error + jsonmap" where
  "decodeObject body =
     (case body of
        Some (JObj m) \<Rightarrow> Inr m
      | Some JNull \<Rightarrow> Inr []
      | _ \<Rightarrow> Inl DecodeError)"

text \<open>\<open>staticHTTPProvider.Fetch\<close>.\<close>

definition staticFetch ::
  "world \<Rightarrow> string \<Rightarrow> (jsonmap \<Rightarrow> error + string list) \<Rightarrow> error + string list" where
  "staticFetch w url selector =
     (case httpDo w url [] of
        Inl err \<Rightarrow> Inl err
      | Inr (status, body) \<Rightarrow>
          (if status < 200 \<or> status \<ge> 300 then Inl (UnexpectedStatus status)
           else (case decodeObject body of
                   Inl err \<Rightarrow> Inl err
                 | Inr payload \<Rightarrow>
                     (case selector payload of
                        Inl err \<Rightarrow> Inl err
                      | Inr cidrs \<Rightarrow> sanitize cidrs))))"

text \<open>\<open>jsonEndpointProvider.resolveSecretHeader\<close> and \<open>resolveHeaders\<close>.\<close>

definition resolveSecretHeader ::
  "world \<Rightarrow> jsonEndpointProvider \<Rightarrow> secretHeaderRef \<Rightarrow> error + string" where
  "resolveSecretHeader w p ref =
     (if \<not> jepKubeClient p then Inl KubeClientNotConfigured
      else (case getSecret w (jepNamespace p) (sksName (shSelector ref)) of
              Inl err \<Rightarrow> Inl (FetchingSecret (jepNamespace p) (sksName (shSelector ref)) err)
            | Inr secretData \<Rightarrow>
                (case map_of secretData (sksKey (shSelector ref)) of
                   None \<Rightarrow>
                     Inl (SecretMissingKey (jepNamespace p) (sksName (shSelector ref))
                            (sksKey (shSelector ref)))
                 | Some v \<Rightarrow> Inr v)))"

fun resolveSecretHeaders ::
  "world \<Rightarrow> jsonEndpointProvider \<Rightarrow> secretHeaderRef list \<Rightarrow> (string \<times> string) list
     \<Rightarrow> error + (string \<times> string) list" where
  "resolveSecretHeaders w p [] headers = Inr headers"
| "resolveSecretHeaders w p (secretHeader # rest) headers =
     (case resolveSecretHeader w p secretHeader of
        Inl err \<Rightarrow> Inl err
      | Inr v \<Rightarrow> resolveSecretHeaders w p rest (headers @ [(shName secretHeader, v)]))"

definition resolveHeaders :: "world \<Rightarrow> jsonEndpointProvider \<Rightarrow> error + (string \<times> string) list" where
  "resolveHeaders w p = resolveSecretHeaders w p (jepSecretHeaders p) (jepHeaders p)"

text \<open>\<open>jsonEndpointProvider.Fetch\<close>; the body is decoded into a value of type \<open>any\<close>.\<close>

definition jsonEndpointFetch :: "world \<Rightarrow> jsonEndpointProvider \<Rightarrow> error + string list" where
  "jsonEndpointFetch w p =
     (case resolveHeaders w p of
        Inl err \<Rightarrow> Inl err
      | Inr headers \<Rightarrow>
          (case httpDo w (jepURL p) headers of
             Inl err \<Rightarrow> Inl err
           | Inr (status, body) \<Rightarrow>
               (if status < 200 \<or> status \<ge> 300 then Inl (UnexpectedStatus status)
                else (case body of
                        None \<Rightarrow> Inl DecodeError
                      | Some payload \<Rightarrow>
                          (case navigateField payload (jepFieldPath p) of
                             Inl err \<Rightarrow> Inl err
                           | Inr v \<Rightarrow>
                               (case interpretCIDRs v (jepFilter p) of
                                  Inl err \<Rightarrow> Inl err
                                | Inr cidrs \<Rightarrow> sanitize cidrs))))))"

text \<open>
  Modelled from the spec: \<open>configMapProvider.Fetch\<close> is not among the sources (only its
  test is).  The spec: it looks up the named key-value object by namespace and name and
  reads one key's string value, splitting on newline, comma or semicolon, trimming each
  token and dropping empties; it fails if the object does not exist, the key is absent,
  or sanitization yields nothing.
\<close>

definition configMapFetch :: "world \<Rightarrow> string \<Rightarrow> string \<Rightarrow> string \<Rightarrow> error + string list" where
  "configMapFetch w namespace name key =
     (case getConfigMap w namespace name of
        Inl err \<Rightarrow> Inl err
      | Inr cmData \<Rightarrow>
          (case map_of cmData key of
             None \<Rightarrow> Inl (ConfigMapMissingKey key)
           | Some payload \<Rightarrow> sanitize (ExtractCIDRs payload)))"

text \<open>The interface method \<open>Provider.Fetch\<close>, by the dynamic type of the provider.\<close>

fun Fetch :: "world \<Rightarrow> Provider \<Rightarrow> error + string list" where
  "Fetch w (StaticHTTPProvider url selector) = staticFetch w url selector"
| "Fetch w (ConfigMapProvider namespace name key) = configMapFetch w namespace name key"
| "Fetch w (JSONEndpointProvider p) = jsonEndpointFetch w p"

section \<open>The resource and the network policy\<close>

text \<open>
  The Kubernetes types, with the fields the operator reads or writes.  A Go map of
  labels or annotations is an association list with one entry for each key; an absent
  map is the empty list.  \<open>networkingv1.PolicyType\<close> is a string type.
\<close>

type_synonym PolicyType = string

definition PolicyTypeIngress :: PolicyType where
  "PolicyTypeIngress = ''Ingress''"

definition PolicyTypeEgress :: PolicyType where
  "PolicyTypeEgress = ''Egress''"

record LabelSelectorRequirement =
  lsrKey :: string
  lsrOperator :: string
  lsrValues :: "string list"

record LabelSelector =
  MatchLabels :: "(string \<times> string) list"
  MatchExpressions :: "LabelSelectorRequirement list"

record IPBlock =
  CIDR :: string
  Except :: "string list"

record NetworkPolicyPeer =
  peerIPBlock :: "IPBlock option"

record NetworkPolicyIngressRule =
  From :: "NetworkPolicyPeer list"

record NetworkPolicyEgressRule =
  To :: "NetworkPolicyPeer list"

record NetworkPolicySpec =
  npsPodSelector :: LabelSelector
  npsPolicyTypes :: "PolicyType list"
  npsIngress :: "NetworkPolicyIngressRule list"
  npsEgress :: "NetworkPolicyEgressRule list"

record OwnerReference =
  orUID :: string
  orController :: "bool option"

record NetworkPolicy =
  npName :: string
  npNamespace :: string
  npLabels :: "(string \<times> string) list"
  npAnnotations :: "(string \<times> string) list"
  npOwnerReferences :: "OwnerReference list"
  npSpec :: NetworkPolicySpec

text \<open>\<open>SyncPeriod\<close> is a \<open>time.Duration\<close>, a number of nanoseconds.\<close>

record BotNetworkPolicySpec =
  specPodSelector :: "LabelSelector option"
  specPolicyTypes :: "PolicyType list"
  specIngress :: "bool option"
  specEgress :: "bool option"
  specProviders :: "ProviderSpec list"
  specCustomCIDRs :: "string list"
  specSyncPeriod :: int

record BotNetworkPolicy =
  bnpName :: string
  bnpNamespace :: string
  bnpUID :: string
  bnpAnnotations :: "(string \<times> string) list"
  bnpSpec :: BotNetworkPolicySpec

definition IngressEnabled :: "BotNetworkPolicySpec \<Rightarrow> bool" where
  "IngressEnabled s = (case specIngress s of None \<Rightarrow> True | Some b \<Rightarrow> b)"

definition EgressEnabled :: "BotNetworkPolicySpec \<Rightarrow> bool" where
  "EgressEnabled s = (case specEgress s of None \<Rightarrow> False | Some b \<Rightarrow> b)"

text \<open>A read \<open>m[k]\<close> of a \<open>map[string]string\<close>: the empty string for a missing key.\<close>

definition lookupOrEmpty :: "(string \<times> string) list \<Rightarrow> string \<Rightarrow> string" where
  "lookupOrEmpty m k = (case map_of m k of Some v \<Rightarrow> v | None \<Rightarrow> [])"

definition NetworkPolicyName :: "BotNetworkPolicy \<Rightarrow> string" where
  "NetworkPolicyName b =
     (let name = TrimSpace (lookupOrEmpty (bnpAnnotations b) ''bot.networking.dev/networkpolicy-name'')
      in if name \<noteq> [] then name else bnpName b @ ''-allow-bots'')"

text \<open>\<open>BotNetworkPolicy.Validate\<close>: the first error among the provider declarations.\<close>

fun validateProviders :: "ProviderSpec list \<Rightarrow> error option" where
  "validateProviders [] = None"
| "validateProviders (p # ps) =
     (case Validate p of Some err \<Rightarrow> Some err | None \<Rightarrow> validateProviders ps)"

definition ValidateResource :: "BotNetworkPolicy \<Rightarrow> error option" where
  "ValidateResource b = validateProviders (specProviders (bnpSpec b))"

section \<open>Building the desired policy\<close>

text \<open>
  \<open>determinePolicyTypes\<close>: \<open>enabled\<close> is a set of policy types and \<open>sets.List\<close> gives
  its elements in increasing order.
\<close>

definition determinePolicyTypes ::
  "PolicyType list \<Rightarrow> bool option \<Rightarrow> bool option \<Rightarrow> PolicyType list" where
  "determinePolicyTypes requested ingress egress =
     (if length requested > 0 then requested
      else (let enabled0 = {};
                enabled1 = (if ingress = None \<or> ingress = Some True
                            then insert PolicyTypeIngress enabled0 else enabled0);
                enabled2 = (if egress \<noteq> None \<and> egress = Some True
                            then insert PolicyTypeEgress enabled1 else enabled1);
                enabled3 = (if card enabled2 = 0
                            then insert PolicyTypeIngress enabled2 else enabled2)
            in sorted_list_of_set enabled3))"

definition buildNetworkPolicy :: "BotNetworkPolicy \<Rightarrow> string list \<Rightarrow> NetworkPolicy" where
  "buildNetworkPolicy resource cidrs =
     (let labels = [(''botnetworkpolicy.bot.networking.dev/owner'', bnpName resource)];
          podSelector = (case specPodSelector (bnpSpec resource) of
                           None \<Rightarrow> \<lparr>MatchLabels = [], MatchExpressions = []\<rparr>
                         | Some sel \<Rightarrow> sel);
          policyTypes = determinePolicyTypes (specPolicyTypes (bnpSpec resource))
                          (specIngress (bnpSpec resource)) (specEgress (bnpSpec resource));
          peers = map (\<lambda>cidr. \<lparr>peerIPBlock = Some \<lparr>CIDR = cidr, Except = []\<rparr>\<rparr>) cidrs;
          ingressRules = (if length cidrs > 0 \<and> IngressEnabled (bnpSpec resource)
                          then [\<lparr>From = peers\<rparr>] else []);
          egressRules = (if length cidrs > 0 \<and> EgressEnabled (bnpSpec resource)
                         then [\<lparr>To = peers\<rparr>] else [])
      in \<lparr>npName = NetworkPolicyName resource,
          npNamespace = bnpNamespace resource,
          npLabels = labels,
          npAnnotations = [],
          npOwnerReferences = [],
          npSpec = \<lparr>npsPodSelector = podSelector, npsPolicyTypes = policyTypes,
                    npsIngress = ingressRules, npsEgress = egressRules\<rparr>\<rparr>)"

section \<open>Comparing policies\<close>

text \<open>
  Each comparison of the source tests the lengths and then runs over the indices of
  the first list; here the index loop runs over the zipped lists.
\<close>

definition equalStringSlices :: "string list \<Rightarrow> string list \<Rightarrow> bool" where
  "equalStringSlices a b =
     (if length a \<noteq> length b then False else list_all (\<lambda>(x, y). x = y) (zip a b))"

definition peerEqual :: "NetworkPolicyPeer \<Rightarrow> NetworkPolicyPeer \<Rightarrow> bool" where
  "peerEqual x y =
     (if (peerIPBlock x = None) \<noteq> (peerIPBlock y = None) then False
      else (case (peerIPBlock x, peerIPBlock y) of
              (Some bx, Some by) \<Rightarrow>
                \<not> (CIDR bx \<noteq> CIDR by \<or> \<not> equalStringSlices (Except bx) (Except by))
            | _ \<Rightarrow> True))"

definition networkPolicyPeersEqual :: "NetworkPolicyPeer list \<Rightarrow> NetworkPolicyPeer list \<Rightarrow> bool" where
  "networkPolicyPeersEqual a b =
     (if length a \<noteq> length b then False else list_all (\<lambda>(x, y). peerEqual x y) (zip a b))"

definition networkPolicyIngressEqual ::
  "NetworkPolicyIngressRule list \<Rightarrow> NetworkPolicyIngressRule list \<Rightarrow> bool" where
  "networkPolicyIngressEqual a b =
     (if length a \<noteq> length b then False
      else list_all (\<lambda>(x, y). networkPolicyPeersEqual (From x) (From y)) (zip a b))"

definition networkPolicyEgressEqual ::
  "NetworkPolicyEgressRule list \<Rightarrow> NetworkPolicyEgressRule list \<Rightarrow> bool" where
  "networkPolicyEgressEqual a b =
     (if length a \<noteq> length b then False
      else list_all (\<lambda>(x, y). networkPolicyPeersEqual (To x) (To y)) (zip a b))"

definition selectorsEqual :: "LabelSelector \<Rightarrow> LabelSelector \<Rightarrow> bool" where
  "selectorsEqual a b =
     (if length (MatchLabels a) \<noteq> length (MatchLabels b) then False
      else if \<not> list_all (\<lambda>(k, v). lookupOrEmpty (MatchLabels b) k = v) (MatchLabels a) then False
      else if length (MatchExpressions a) \<noteq> length (MatchExpressions b) then False
      else list_all (\<lambda>(ae, be).
               \<not> (lsrKey ae \<noteq> lsrKey be \<or> lsrOperator ae \<noteq> lsrOperator be \<or>
                   \<not> equalStringSlices (lsrValues ae) (lsrValues be)))
             (zip (MatchExpressions a) (MatchExpressions b)))"

definition networkPoliciesEqual :: "NetworkPolicy \<Rightarrow> NetworkPolicy \<Rightarrow> bool" where
  "networkPoliciesEqual existing desired =
     (if length (npsPolicyTypes (npSpec existing)) \<noteq> length (npsPolicyTypes (npSpec desired))
      then False
      else (let existingTypes = sort (npsPolicyTypes (npSpec existing));
                desiredTypes = sort (npsPolicyTypes (npSpec desired))
            in if \<not> list_all (\<lambda>(x, y). x = y) (zip existingTypes desiredTypes) then False
               else if \<not> networkPolicyIngressEqual (npsIngress (npSpec existing))
                           (npsIngress (npSpec desired)) then False
               else if \<not> networkPolicyEgressEqual (npsEgress (npSpec existing))
                           (npsEgress (npSpec desired)) then False
               else if \<not> selectorsEqual (npsPodSelector (npSpec existing))
                           (npsPodSelector (npSpec desired)) then False
               else True))"

section \<open>Collecting CIDRs\<close>

datatype warning =
    ProviderSkipped string error  \<comment> \<open>provider %s skipped: %v\<close>
  | ProviderFetchError string error  \<comment> \<open>provider %s fetch error: %v\<close>

text \<open>The inner loop of \<open>collectCIDRs\<close> over the CIDRs one provider returned.\<close>

fun insertFetched :: "string list \<Rightarrow> string set \<Rightarrow> string set" where
  "insertFetched [] providerCIDRs = providerCIDRs"
| "insertFetched (cidr # rest) providerCIDRs =
     (let normalized = TrimSpace cidr
      in if normalized = [] then insertFetched rest providerCIDRs
         else insertFetched rest (insert normalized providerCIDRs))"

text \<open>
  The loop over the provider declarations.  \<open>fetch\<close> is the call \<open>provider.Fetch(ctx)\<close>
  through the interface: what it returns depends on the world outside the process.
\<close>

fun collectProviders ::
  "(Provider \<Rightarrow> error + string list) \<Rightarrow> Factory \<Rightarrow> string \<Rightarrow> ProviderSpec list
     \<Rightarrow> string set \<Rightarrow> warning list \<Rightarrow> string set \<times> warning list" where
  "collectProviders fetch factory namespace [] providerCIDRs warnings = (providerCIDRs, warnings)"
| "collectProviders fetch factory namespace (providerSpec # rest) providerCIDRs warnings =
     (case FromSpec factory namespace providerSpec of
        Inl err \<Rightarrow>
          collectProviders fetch factory namespace rest providerCIDRs
            (warnings @ [ProviderSkipped (psName providerSpec) err])
      | Inr provider \<Rightarrow>
          (case fetch provider of
             Inl err \<Rightarrow>
               collectProviders fetch factory namespace rest providerCIDRs
                 (warnings @ [ProviderFetchError (psName providerSpec) err])
           | Inr cidrs \<Rightarrow>
               collectProviders fetch factory namespace rest
                 (insertFetched cidrs providerCIDRs) warnings))"

text \<open>The loop over the literal CIDRs of the resource.\<close>

fun insertCustom :: "string list \<Rightarrow> string set \<Rightarrow> string set" where
  "insertCustom [] providerCIDRs = providerCIDRs"
| "insertCustom (cidr # rest) providerCIDRs =
     insertCustom rest (insert (TrimSpace cidr) providerCIDRs)"

text \<open>
  \<open>collectCIDRs\<close>: the merged list, the warnings and the error, which is always \<open>nil\<close>.
  \<open>List()\<close> of a string set is sorted, and \<open>sort.Strings\<close> sorts it once more.  The
  factory gets the reconciler's client, which is set: \<open>Reconcile\<close> has read the resource
  through it.
\<close>

definition collectCIDRs ::
  "(Provider \<Rightarrow> error + string list) \<Rightarrow> BotNetworkPolicy
     \<Rightarrow> string list \<times> warning list \<times> error option" where
  "collectCIDRs fetch resource =
     (let factory = NewFactory True;
          (providerCIDRs, warnings) =
             collectProviders fetch factory (bnpNamespace resource)
               (specProviders (bnpSpec resource)) {} [];
          allCIDRs = insertCustom (specCustomCIDRs (bnpSpec resource)) providerCIDRs;
          result = sort (sorted_list_of_set allCIDRs)
      in (result, warnings, None))"

section \<open>Reconciliation\<close>

text \<open>
  The Kubernetes client and the event recorder.  A read gives the object, a not-found
  error or another error; what a create or an update returns is a function of the
  object written.  Every call that writes, and every recorded event, is an \<open>action\<close>; a
  run of the reconciler gives the list of its actions in order, beside its result.
\<close>

datatype 'a getResult = Found 'a | NotFound | GetFailed error

record client =
  getBotNetworkPolicy :: "string \<Rightarrow> string \<Rightarrow> BotNetworkPolicy getResult"
  getNetworkPolicy :: "string \<Rightarrow> string \<Rightarrow> NetworkPolicy getResult"
  createOutcome :: "NetworkPolicy \<Rightarrow> error option"
  updateOutcome :: "NetworkPolicy \<Rightarrow> error option"
  schemeKnowsOwner :: bool

datatype eventMessage = ErrorMessage error | WarningMessage warning

datatype action =
    Event string string eventMessage  \<comment> \<open>event type, reason, message\<close>
  | Create NetworkPolicy
  | Update NetworkPolicy

definition EventTypeWarning :: string where
  "EventTypeWarning = ''Warning''"

definition isWrite :: "action \<Rightarrow> bool" where
  "isWrite a = (case a of Event _ _ _ \<Rightarrow> False | Create _ \<Rightarrow> True | Update _ \<Rightarrow> True)"

text \<open>
  \<open>controllerutil.SetControllerReference\<close> on a freshly built policy: it fails when the
  scheme does not know the owner's type, and otherwise adds the owner as controller.
\<close>

definition SetControllerReference ::
  "client \<Rightarrow> BotNetworkPolicy \<Rightarrow> NetworkPolicy \<Rightarrow> error + NetworkPolicy" where
  "SetControllerReference c owner obj =
     (if \<not> schemeKnowsOwner c then Inl SchemeError
      else Inr (obj\<lparr>npOwnerReferences :=
                     npOwnerReferences obj @ [\<lparr>orUID = bnpUID owner, orController = Some True\<rparr>]\<rparr>))"

text \<open>
  \<open>metav1.IsControlledBy\<close>: the first owner reference whose controller flag is set
  and true is the controller, and its UID is compared with the owner's.
\<close>

definition IsControlledBy :: "NetworkPolicy \<Rightarrow> BotNetworkPolicy \<Rightarrow> bool" where
  "IsControlledBy obj owner =
     (case find (\<lambda>ref. orController ref = Some True) (npOwnerReferences obj) of
        None \<Rightarrow> False
      | Some ref \<Rightarrow> orUID ref = bnpUID owner)"

definition ensureNetworkPolicy ::
  "client \<Rightarrow> BotNetworkPolicy \<Rightarrow> string list \<Rightarrow> action list \<times> error option" where
  "ensureNetworkPolicy c resource cidrs =
     (let desired = buildNetworkPolicy resource cidrs
      in case getNetworkPolicy c (npNamespace desired) (npName desired) of
           GetFailed err \<Rightarrow> ([], Some err)
         | NotFound \<Rightarrow>
             (case SetControllerReference c resource desired of
                Inl err \<Rightarrow> ([], Some err)
              | Inr owned \<Rightarrow> ([Create owned], createOutcome c owned))
         | Found existing \<Rightarrow>
             (if IsControlledBy existing resource then
                (if networkPoliciesEqual existing desired then ([], None)
                 else (let updated = existing\<lparr>npSpec := npSpec desired,
                                              npLabels := npLabels desired,
                                              npAnnotations := npAnnotations desired\<rparr>
                       in ([Update updated], updateOutcome c updated)))
              else ([], Some (NotControlledByBotNetworkPolicy
                                (npNamespace desired) (npName desired)))))"

text \<open>\<open>ctrl.Result\<close>; \<open>RequeueAfter\<close> is a duration in nanoseconds.\<close>

record Result =
  Requeue :: bool
  RequeueAfter :: int

definition emptyResult :: Result where
  "emptyResult = \<lparr>Requeue = False, RequeueAfter = 0\<rparr>"

text \<open>\<open>providers.DefaultSyncPeriod\<close>, one hour.\<close>

definition DefaultSyncPeriod :: int where
  "DefaultSyncPeriod = 3600 * 1000000000"

text \<open>
  \<open>Reconcile\<close> for the request \<open>namespace/name\<close>: the actions, the result and the error.
\<close>

definition Reconcile ::
  "client \<Rightarrow> (Provider \<Rightarrow> error + string list) \<Rightarrow> string \<Rightarrow> string
     \<Rightarrow> action list \<times> Result \<times> error option" where
  "Reconcile c fetch namespace name =
     (case getBotNetworkPolicy c namespace name of
        GetFailed err \<Rightarrow> ([], emptyResult, Some err)
      | NotFound \<Rightarrow> ([], emptyResult, None)
      | Found resource \<Rightarrow>
          (case ValidateResource resource of
             Some err \<Rightarrow>
               ([Event EventTypeWarning ''InvalidSpec'' (ErrorMessage err)], emptyResult, None)
           | None \<Rightarrow>
               (case collectCIDRs fetch resource of
                  (cidrs, warnings, Some err) \<Rightarrow> ([], emptyResult, Some err)
                | (cidrs, warnings, None) \<Rightarrow>
                    (let events = map (\<lambda>warning. Event EventTypeWarning ''ProviderWarning''
                                                    (WarningMessage warning)) warnings
                     in case ensureNetworkPolicy c resource cidrs of
                          (writes, Some err) \<Rightarrow> (events @ writes, emptyResult, Some err)
                        | (writes, None) \<Rightarrow>
                            (let syncAfter =
                                   (if specSyncPeriod (bnpSpec resource) = 0
                                    then DefaultSyncPeriod
                                    else specSyncPeriod (bnpSpec resource))
                             in (events @ writes,
                                 \<lparr>Requeue = False, RequeueAfter = syncAfter\<rparr>, None))))))"

section \<open>The allow-lists of the aws selector, as specified\<close>


section \<open>Properties of the sanitizer and of fetching\<close>

lemma TrimSpace_idem: "TrimSpace (TrimSpace s) = TrimSpace s"
proof -
  let ?t = "dropWhile isSpace (rev (dropWhile isSpace s))"
  have a: "dropWhile isSpace ?t = ?t" by (simp add: dropWhile_idem)
  have "?t = [] \<or> \<not> isSpace (hd ?t)" using hd_dropWhile[of isSpace "rev (dropWhile isSpace s)"] by blast
  have b: "dropWhile isSpace (rev ?t) = rev ?t"
  proof (cases "dropWhile isSpace s = []")
    case True
    show ?thesis unfolding True by simp
  next
    case False
    then obtain x xs where Cons: "dropWhile isSpace s = x # xs" by (cases "dropWhile isSpace s") auto
    then have nx: "\<not> isSpace x" using hd_dropWhile[of isSpace s] by (metis list.sel(1) list.distinct(1))
    have "x \<in> set (rev (dropWhile isSpace s))" using Cons by simp
    then have ne: "?t \<noteq> []" using nx by (metis dropWhile_eq_Nil_conv)
    have "\<exists>ys. rev (dropWhile isSpace s) = ys @ ?t" by (metis takeWhile_dropWhile_id)
    then obtain ys where ys: "rev (dropWhile isSpace s) = ys @ ?t" by blast
    then have "dropWhile isSpace s = rev ?t @ rev ys" by (metis rev_append rev_rev_ident)
    with Cons ne have "hd (rev ?t) = x" by (metis hd_append2 list.sel(1) rev_is_Nil_conv)
    then have "\<not> isSpace (hd (rev ?t))" using nx by simp
    then show ?thesis using ne by (cases "rev ?t") auto
  qed
  show ?thesis unfolding TrimSpace_def using a b by simp
qed

lemma sanitizeLoop_eq: "sanitizeLoop cidrs results = results @ filter (\<lambda>t. t \<noteq> []) (map TrimSpace cidrs)"
  by (induction cidrs arbitrary: results) (auto simp: Let_def)

lemma sanitize_eq: "sanitize cidrs = (let r = filter (\<lambda>t. t \<noteq> []) (map TrimSpace cidrs) in if r = [] then Inl ProviderReturnedNoCIDRs else Inr r)"
  by (simp add: sanitize_def sanitizeLoop_eq Let_def)


lemma sanitize_Inr_trimmed:
  assumes "sanitize raw = Inr ys"
  shows "ys \<noteq> [] \<and> (\<forall>y\<in>set ys. y \<noteq> [] \<and> TrimSpace y = y)"
proof -
  from assms have ys: "ys = filter (\<lambda>t. t \<noteq> []) (map TrimSpace raw)" and ne: "ys \<noteq> []"
    by (auto simp: sanitize_eq Let_def split: if_splits)
  have "\<forall>y\<in>set ys. y \<noteq> [] \<and> TrimSpace y = y"
    unfolding ys by (auto simp: TrimSpace_idem)
  with ne show ?thesis by simp
qed

lemma Fetch_sanitized: "Fetch w p = Inr ys \<Longrightarrow> \<exists>raw. sanitize raw = Inr ys"
proof (cases p)
  case (StaticHTTPProvider url selector)
  assume "Fetch w p = Inr ys"
  with StaticHTTPProvider show ?thesis
    by (auto simp: staticFetch_def split: sum.splits prod.splits if_splits)
next
  case (ConfigMapProvider ns name key)
  assume "Fetch w p = Inr ys"
  with ConfigMapProvider show ?thesis
    by (auto simp: configMapFetch_def split: sum.splits option.splits)
next
  case (JSONEndpointProvider jp)
  assume "Fetch w p = Inr ys"
  with JSONEndpointProvider show ?thesis
    by (auto simp: jsonEndpointFetch_def split: sum.splits prod.splits if_splits option.splits)
qed



section \<open>Properties of the policy-type derivation\<close>

lemma determinePolicyTypes_flags_set:
  "set (determinePolicyTypes [] ingress egress) =
     (let derived = (if ingress \<noteq> Some False then {PolicyTypeIngress} else {}) \<union>
                    (if egress = Some True then {PolicyTypeEgress} else {})
      in if derived = {} then {PolicyTypeIngress} else derived)"
  unfolding determinePolicyTypes_def Let_def
  by (cases ingress; cases egress) (auto simp: PolicyTypeIngress_def PolicyTypeEgress_def)

lemma determinePolicyTypes_flags_distinct: "distinct (determinePolicyTypes [] ingress egress)"
  unfolding determinePolicyTypes_def Let_def by simp

text \<open>
  C2: a resource that lists policy types gets exactly that list.  With no list (or an
  empty one) the flags decide: ingress is in the result unless the ingress flag is
  explicitly false, egress only if the egress flag is explicitly true, and when neither
  would be in it the result is ingress alone.  No list and no flags give ingress;
  egress true with ingress unset gives both; egress true with ingress false gives
  egress alone.
\<close>

theorem determinePolicyTypes_derivation:
  "(requested \<noteq> [] \<longrightarrow> determinePolicyTypes requested ingress egress = requested)
   \<and> set (determinePolicyTypes [] ingress egress) =
       (let derived = (if ingress \<noteq> Some False then {PolicyTypeIngress} else {}) \<union>
                      (if egress = Some True then {PolicyTypeEgress} else {})
        in if derived = {} then {PolicyTypeIngress} else derived)
   \<and> distinct (determinePolicyTypes [] ingress egress)
   \<and> determinePolicyTypes [] None None = [PolicyTypeIngress]
   \<and> determinePolicyTypes [] None (Some True) = [PolicyTypeEgress, PolicyTypeIngress]
   \<and> determinePolicyTypes [] (Some False) (Some True) = [PolicyTypeEgress]
   \<and> determinePolicyTypes [] (Some False) None = [PolicyTypeIngress]"
proof (intro conjI impI)
  assume "requested \<noteq> []"
  then show "determinePolicyTypes requested ingress egress = requested"
    by (simp add: determinePolicyTypes_def)
next
  show "set (determinePolicyTypes [] ingress egress) =
       (let derived = (if ingress \<noteq> Some False then {PolicyTypeIngress} else {}) \<union>
                      (if egress = Some True then {PolicyTypeEgress} else {})
        in if derived = {} then {PolicyTypeIngress} else derived)"
    by (rule determinePolicyTypes_flags_set)
next
  show "distinct (determinePolicyTypes [] ingress egress)"
    by (rule determinePolicyTypes_flags_distinct)
next
  show "determinePolicyTypes [] None None = [PolicyTypeIngress]"
    by (simp add: determinePolicyTypes_def)
next
  show "determinePolicyTypes [] None (Some True) = [PolicyTypeEgress, PolicyTypeIngress]"
    by (simp add: determinePolicyTypes_def PolicyTypeIngress_def PolicyTypeEgress_def)
next
  show "determinePolicyTypes [] (Some False) (Some True) = [PolicyTypeEgress]"
    by (simp add: determinePolicyTypes_def)
next
  show "determinePolicyTypes [] (Some False) None = [PolicyTypeIngress]"
    by (simp add: determinePolicyTypes_def)
qed

theorem determinePolicyTypes_derivation_witness:
  "[PolicyTypeEgress] \<noteq> [] \<and> determinePolicyTypes [PolicyTypeEgress] None (Some False) = [PolicyTypeEgress]"
  using determinePolicyTypes_derivation[of "[PolicyTypeEgress]" None "Some False"] by simp

section \<open>Properties of the JSON path navigation\<close>

lemma navigateSegments_skip_empty:
  "navigateSegments input segs = navigateSegments input (filter (\<lambda>s. s \<noteq> []) segs)"
  by (induction input segs rule: navigateSegments.induct) (auto split: json.splits option.splits)

text \<open>
  C6: the path \<open>a.b.c\<close> against \<open>{"a":{"b":{"c":X}}}\<close> gives \<open>X\<close>, and \<open>a.x\<close> fails with
  a missing-segment error; empty segments of a path are skipped; at a segment that is
  not empty, a current value that is not an object fails with the not-an-object error,
  an object without the segment fails with the missing-segment error, and otherwise
  navigation goes on from the value under the segment; the empty path gives the whole
  document.
\<close>

theorem navigateField_path:
  "navigateField (JObj [(''a'', JObj [(''b'', JObj [(''c'', X)])])]) ''a.b.c'' = Inr X
   \<and> navigateField (JObj [(''a'', JObj [(''b'', JObj [(''c'', X)])])]) ''a.x'' = Inl (MissingSegment ''x'')
   \<and> navigateField input path =
       navigateSegments input (filter (\<lambda>s. s \<noteq> []) (Split path (CHR ''.'')))
   \<and> (segment \<noteq> [] \<and> (\<forall>m. current \<noteq> JObj m) \<longrightarrow>
        navigateSegments current (segment # segments) = Inl (SegmentNotAnObject segment))
   \<and> (segment \<noteq> [] \<and> current = JObj m \<and> map_of m segment = None \<longrightarrow>
        navigateSegments current (segment # segments) = Inl (MissingSegment segment))
   \<and> (segment \<noteq> [] \<and> current = JObj m \<and> map_of m segment = Some next \<longrightarrow>
        navigateSegments current (segment # segments) = navigateSegments next segments)
   \<and> navigateField input [] = Inr input"
proof (intro conjI impI)
  show "navigateField (JObj [(''a'', JObj [(''b'', JObj [(''c'', X)])])]) ''a.b.c'' = Inr X"
    by (simp add: navigateField_def)
  show "navigateField (JObj [(''a'', JObj [(''b'', JObj [(''c'', X)])])]) ''a.x'' = Inl (MissingSegment ''x'')"
    by (simp add: navigateField_def)
  show "navigateField input path =
       navigateSegments input (filter (\<lambda>s. s \<noteq> []) (Split path (CHR ''.'')))"
    unfolding navigateField_def by (rule navigateSegments_skip_empty)
  show "navigateField input [] = Inr input"
    by (simp add: navigateField_def)
next
  assume "segment \<noteq> [] \<and> (\<forall>m. current \<noteq> JObj m)"
  then show "navigateSegments current (segment # segments) = Inl (SegmentNotAnObject segment)"
    by (cases current) auto
next
  assume "segment \<noteq> [] \<and> current = JObj m \<and> map_of m segment = None"
  then show "navigateSegments current (segment # segments) = Inl (MissingSegment segment)"
    by simp
next
  assume "segment \<noteq> [] \<and> current = JObj m \<and> map_of m segment = Some next"
  then show "navigateSegments current (segment # segments) = navigateSegments next segments"
    by simp
qed

theorem navigateField_path_witness:
  "navigateField (JObj [(''outer'', JStr ''not an object'')]) ''outer.inner'' = Inl (SegmentNotAnObject ''inner'')
   \<and> navigateField (JObj [(''outer'', JObj [])]) ''outer.missing'' = Inl (MissingSegment ''missing'')
   \<and> navigateField (JObj [(''a'', JObj [(''b'', JArr [JStr ''10.0.0.0/24''])])]) ''.a..b.'' = Inr (JArr [JStr ''10.0.0.0/24''])"
proof -
  have s1: "filter (\<lambda>s. s \<noteq> []) (Split ''outer.inner'' (CHR ''.'')) = [''outer'', ''inner'']" by simp
  have s2: "filter (\<lambda>s. s \<noteq> []) (Split ''outer.missing'' (CHR ''.'')) = [''outer'', ''missing'']" by simp
  have s3: "filter (\<lambda>s. s \<noteq> []) (Split ''.a..b.'' (CHR ''.'')) = [''a'', ''b'']" by simp
  have a: "navigateSegments (JStr ''not an object'') [''inner''] = Inl (SegmentNotAnObject ''inner'')"
    using navigateField_path[of JNull "JStr ''not an object''" "[]" "''inner''" "JStr ''not an object''" "[]" "[]" JNull]
    by simp
  have a': "navigateField (JObj [(''outer'', JStr ''not an object'')]) ''outer.inner'' = Inl (SegmentNotAnObject ''inner'')"
    using navigateField_path[of JNull "JObj [(''outer'', JStr ''not an object'')]" "''outer.inner''" "''outer''"
        "JObj [(''outer'', JStr ''not an object'')]" "[''inner'']" "[(''outer'', JStr ''not an object'')]" "JStr ''not an object''"] a s1
    by simp
  have b: "navigateSegments (JObj []) [''missing''] = Inl (MissingSegment ''missing'')"
    using navigateField_path[of JNull JNull "[]" "''missing''" "JObj []" "[]" "[]" JNull]
    by simp
  have b': "navigateField (JObj [(''outer'', JObj [])]) ''outer.missing'' = Inl (MissingSegment ''missing'')"
    using navigateField_path[of JNull "JObj [(''outer'', JObj [])]" "''outer.missing''" "''outer''"
        "JObj [(''outer'', JObj [])]" "[''missing'']" "[(''outer'', JObj [])]" "JObj []"] b s2
    by simp
  have c: "navigateField (JObj [(''a'', JObj [(''b'', JArr [JStr ''10.0.0.0/24''])])]) ''.a..b.'' = Inr (JArr [JStr ''10.0.0.0/24''])"
    using navigateField_path[of JNull "JObj [(''a'', JObj [(''b'', JArr [JStr ''10.0.0.0/24''])])]" "''.a..b.''" "[]" JNull "[]" "[]" JNull] s3
    by simp
  from a' b' c show ?thesis by blast
qed

section \<open>Properties of reconciliation\<close>

lemma collectCIDRs_error_nil: "snd (snd (collectCIDRs fetch resource)) = None"
  by (simp add: collectCIDRs_def Let_def split: prod.splits)

lemma buildNetworkPolicy_key:
  "npNamespace (buildNetworkPolicy resource cidrs) = bnpNamespace resource"
  "npName (buildNetworkPolicy resource cidrs) = NetworkPolicyName resource"
  by (simp_all add: buildNetworkPolicy_def Let_def)

lemma events_not_writes:
  "\<not> list_ex isWrite (map (\<lambda>warning. Event t r (WarningMessage warning)) warnings)"
  by (induction warnings) (simp_all add: isWrite_def)

lemma zip_all_eq: "length xs = length ys \<Longrightarrow> list_all (\<lambda>(x, y). x = y) (zip xs ys) = (xs = ys)"
  by (induction xs ys rule: list_induct2) auto

lemma networkPoliciesEqual_char:
  "networkPoliciesEqual existing desired =
     (sort (npsPolicyTypes (npSpec existing)) = sort (npsPolicyTypes (npSpec desired))
      \<and> networkPolicyIngressEqual (npsIngress (npSpec existing)) (npsIngress (npSpec desired))
      \<and> networkPolicyEgressEqual (npsEgress (npSpec existing)) (npsEgress (npSpec desired))
      \<and> selectorsEqual (npsPodSelector (npSpec existing)) (npsPodSelector (npSpec desired)))"
proof (cases "length (npsPolicyTypes (npSpec existing)) = length (npsPolicyTypes (npSpec desired))")
  case True
  then have "length (sort (npsPolicyTypes (npSpec existing))) = length (sort (npsPolicyTypes (npSpec desired)))"
    by simp
  from zip_all_eq[OF this] True show ?thesis
    by (simp add: networkPoliciesEqual_def Let_def)
next
  case False
  then have "sort (npsPolicyTypes (npSpec existing)) \<noteq> sort (npsPolicyTypes (npSpec desired))"
    by (metis length_sort)
  with False show ?thesis by (simp add: networkPoliciesEqual_def)
qed

text \<open>
  C7: when the validation of the resource's provider declarations fails, the run
  records one warning event with reason \<open>InvalidSpec\<close>, issues no create and no update,
  returns no error, and its result asks for no requeue.
\<close>

theorem Reconcile_invalid_spec:
  assumes "getBotNetworkPolicy c namespace name = Found resource"
    and "ValidateResource resource = Some err"
  shows "Reconcile c fetch namespace name =
           ([Event EventTypeWarning ''InvalidSpec'' (ErrorMessage err)], emptyResult, None)
         \<and> \<not> list_ex isWrite (fst (Reconcile c fetch namespace name))
         \<and> RequeueAfter (fst (snd (Reconcile c fetch namespace name))) = 0
         \<and> \<not> Requeue (fst (snd (Reconcile c fetch namespace name)))"
  using assms by (simp add: Reconcile_def isWrite_def emptyResult_def)

theorem Reconcile_invalid_spec_witness:
  "(let r = \<lparr>bnpName = ''sample'', bnpNamespace = ''default'', bnpUID = ''uid-1'', bnpAnnotations = [],
            bnpSpec = \<lparr>specPodSelector = None, specPolicyTypes = [], specIngress = None,
                       specEgress = None, specProviders = [\<lparr>psName = ''configmap'', psGoogle = None, psAWS = None, psGitHub = None, psConfigMap = None, psJSONEndpoint = None\<rparr>],
                       specCustomCIDRs = [], specSyncPeriod = 0\<rparr>\<rparr>;
        c = \<lparr>getBotNetworkPolicy = (\<lambda>ns n. Found r), getNetworkPolicy = (\<lambda>ns n. NotFound),
            createOutcome = (\<lambda>np. None), updateOutcome = (\<lambda>np. None),
            schemeKnowsOwner = True\<rparr>
    in getBotNetworkPolicy c ''default'' ''sample'' = Found r
       \<and> ValidateResource r = Some ConfigMapRequiresConfiguration
       \<and> Reconcile c (\<lambda>p. Inr [''10.0.0.0/24'']) ''default'' ''sample'' =
           ([Event ''Warning'' ''InvalidSpec'' (ErrorMessage ConfigMapRequiresConfiguration)],
            \<lparr>Requeue = False, RequeueAfter = 0\<rparr>, None))"
proof -
  let ?r = "\<lparr>bnpName = ''sample'', bnpNamespace = ''default'', bnpUID = ''uid-1'', bnpAnnotations = [],
            bnpSpec = \<lparr>specPodSelector = None, specPolicyTypes = [], specIngress = None,
                       specEgress = None, specProviders = [\<lparr>psName = ''configmap'', psGoogle = None, psAWS = None, psGitHub = None, psConfigMap = None, psJSONEndpoint = None\<rparr>],
                       specCustomCIDRs = [], specSyncPeriod = 0\<rparr>\<rparr>"
  let ?c = "\<lparr>getBotNetworkPolicy = (\<lambda>ns n. Found ?r), getNetworkPolicy = (\<lambda>ns n. NotFound),
            createOutcome = (\<lambda>np. None), updateOutcome = (\<lambda>np. None),
            schemeKnowsOwner = True\<rparr>"
  have h1: "getBotNetworkPolicy ?c ''default'' ''sample'' = Found ?r" by simp
  have h2: "ValidateResource ?r = Some ConfigMapRequiresConfiguration"
    by (simp add: ValidateResource_def Validate_def ToLower_def toLowerChar_def)
  from Reconcile_invalid_spec[OF h1 h2, of "\<lambda>p. Inr [''10.0.0.0/24'']"] h1 h2
  show ?thesis by (simp add: Let_def EventTypeWarning_def emptyResult_def)
qed

text \<open>
  C8: when a network policy with the derived name exists and is not controlled by the
  resource, \<open>ensureNetworkPolicy\<close> returns the not-controlled error without any action,
  and a run of \<open>Reconcile\<close> on a valid resource returns that error with an empty result
  and issues no create and no update.
\<close>

theorem ensureNetworkPolicy_not_controlled:
  assumes "getNetworkPolicy c (bnpNamespace resource) (NetworkPolicyName resource) = Found existing"
    and "\<not> IsControlledBy existing resource"
  shows "ensureNetworkPolicy c resource cidrs =
           ([], Some (NotControlledByBotNetworkPolicy (bnpNamespace resource) (NetworkPolicyName resource)))
         \<and> (getBotNetworkPolicy c namespace name = Found resource \<and> ValidateResource resource = None \<longrightarrow>
              snd (Reconcile c fetch namespace name) =
                (emptyResult,
                 Some (NotControlledByBotNetworkPolicy (bnpNamespace resource) (NetworkPolicyName resource)))
              \<and> \<not> list_ex isWrite (fst (Reconcile c fetch namespace name)))"
proof -
  have e: "ensureNetworkPolicy c resource cidrs =
           ([], Some (NotControlledByBotNetworkPolicy (bnpNamespace resource) (NetworkPolicyName resource)))"
    for cidrs
    using assms by (simp add: ensureNetworkPolicy_def Let_def buildNetworkPolicy_key)
  have r: "snd (Reconcile c fetch namespace name) =
                (emptyResult,
                 Some (NotControlledByBotNetworkPolicy (bnpNamespace resource) (NetworkPolicyName resource)))
              \<and> \<not> list_ex isWrite (fst (Reconcile c fetch namespace name))"
    if "getBotNetworkPolicy c namespace name = Found resource" "ValidateResource resource = None"
  proof -
    obtain cs ws where cw: "collectCIDRs fetch resource = (cs, ws, None)"
      using collectCIDRs_error_nil[of fetch resource] by (cases "collectCIDRs fetch resource") auto
    show ?thesis using that cw e[of cs] by (simp add: Reconcile_def Let_def events_not_writes)
  qed
  from e r show ?thesis by blast
qed

theorem ensureNetworkPolicy_not_controlled_witness:
  "(let r = \<lparr>bnpName = ''sample'', bnpNamespace = ''default'', bnpUID = ''uid-1'', bnpAnnotations = [],
            bnpSpec = \<lparr>specPodSelector = None, specPolicyTypes = [], specIngress = None,
                       specEgress = None, specProviders = [],
                       specCustomCIDRs = [], specSyncPeriod = 0\<rparr>\<rparr>;
        e = \<lparr>npName = ''sample-allow-bots'', npNamespace = ''default'',
            npLabels = [], npAnnotations = [],
            npOwnerReferences = [\<lparr>orUID = ''uid-2'', orController = Some True\<rparr>],
            npSpec = \<lparr>npsPodSelector = \<lparr>MatchLabels = [], MatchExpressions = []\<rparr>,
                      npsPolicyTypes = [''Ingress''],
                      npsIngress = [\<lparr>From = [\<lparr>peerIPBlock = Some \<lparr>CIDR = ''10.0.0.0/24'', Except = []\<rparr>\<rparr>]\<rparr>],
                      npsEgress = []\<rparr>\<rparr>;
        c = \<lparr>getBotNetworkPolicy = (\<lambda>ns n. Found r), getNetworkPolicy = (\<lambda>ns n. Found e),
            createOutcome = (\<lambda>np. None), updateOutcome = (\<lambda>np. None),
            schemeKnowsOwner = True\<rparr>
    in getNetworkPolicy c (bnpNamespace r) (NetworkPolicyName r) = Found e
       \<and> \<not> IsControlledBy e r
       \<and> ensureNetworkPolicy c r [''10.0.0.0/24''] =
           ([], Some (NotControlledByBotNetworkPolicy ''default'' ''sample-allow-bots''))
       \<and> Reconcile c (\<lambda>p. Inr [''10.0.0.0/24'']) ''default'' ''sample'' =
           ([], \<lparr>Requeue = False, RequeueAfter = 0\<rparr>,
            Some (NotControlledByBotNetworkPolicy ''default'' ''sample-allow-bots'')))"
proof -
  let ?r = "\<lparr>bnpName = ''sample'', bnpNamespace = ''default'', bnpUID = ''uid-1'', bnpAnnotations = [],
            bnpSpec = \<lparr>specPodSelector = None, specPolicyTypes = [], specIngress = None,
                       specEgress = None, specProviders = [],
                       specCustomCIDRs = [], specSyncPeriod = 0\<rparr>\<rparr>"
  let ?e = "\<lparr>npName = ''sample-allow-bots'', npNamespace = ''default'',
            npLabels = [], npAnnotations = [],
            npOwnerReferences = [\<lparr>orUID = ''uid-2'', orController = Some True\<rparr>],
            npSpec = \<lparr>npsPodSelector = \<lparr>MatchLabels = [], MatchExpressions = []\<rparr>,
                      npsPolicyTypes = [''Ingress''],
                      npsIngress = [\<lparr>From = [\<lparr>peerIPBlock = Some \<lparr>CIDR = ''10.0.0.0/24'', Except = []\<rparr>\<rparr>]\<rparr>],
                      npsEgress = []\<rparr>\<rparr>"
  let ?c = "\<lparr>getBotNetworkPolicy = (\<lambda>ns n. Found ?r), getNetworkPolicy = (\<lambda>ns n. Found ?e),
            createOutcome = (\<lambda>np. None), updateOutcome = (\<lambda>np. None),
            schemeKnowsOwner = True\<rparr>"
  let ?f = "\<lambda>p::Provider. Inr [''10.0.0.0/24''] :: error + string list"
  have n: "NetworkPolicyName ?r = ''sample-allow-bots''"
    by (simp add: NetworkPolicyName_def lookupOrEmpty_def TrimSpace_def)
  have h1: "getNetworkPolicy ?c (bnpNamespace ?r) (NetworkPolicyName ?r) = Found ?e" by simp
  have h2: "\<not> IsControlledBy ?e ?r" by (simp add: IsControlledBy_def)
  have h3: "getBotNetworkPolicy ?c ''default'' ''sample'' = Found ?r" by simp
  have h4: "ValidateResource ?r = None" by (simp add: ValidateResource_def)
  note t = ensureNetworkPolicy_not_controlled[OF h1 h2, of "[''10.0.0.0/24'']" "''default''" "''sample''" ?f]
  have a: "ensureNetworkPolicy ?c ?r [''10.0.0.0/24''] =
           ([], Some (NotControlledByBotNetworkPolicy ''default'' ''sample-allow-bots''))"
    using t n by simp
  have ev: "fst (Reconcile ?c ?f ''default'' ''sample'') = []"
    by (simp add: Reconcile_def ValidateResource_def collectCIDRs_def Let_def
          ensureNetworkPolicy_def buildNetworkPolicy_def IsControlledBy_def n[simplified])
  have b: "snd (Reconcile ?c ?f ''default'' ''sample'') =
           (\<lparr>Requeue = False, RequeueAfter = 0\<rparr>,
            Some (NotControlledByBotNetworkPolicy ''default'' ''sample-allow-bots''))"
    using t h3 h4 n by (simp add: emptyResult_def)
  have "Reconcile ?c ?f ''default'' ''sample'' =
           ([], \<lparr>Requeue = False, RequeueAfter = 0\<rparr>,
            Some (NotControlledByBotNetworkPolicy ''default'' ''sample-allow-bots''))"
    using ev b by (metis prod.collapse)
  with h1 h2 a show ?thesis unfolding Let_def by blast
qed

text \<open>
  C10: when the existing policy is controlled by the resource and the comparator finds
  it equal to the desired one, \<open>ensureNetworkPolicy\<close> does nothing, and it still does
  nothing when the labels and annotations of the existing policy are replaced by any
  others.  The comparator holds exactly when the sorted policy types are equal and the
  ingress rules, the egress rules and the pod selectors compare equal; it reads neither
  labels nor annotations.
\<close>

theorem ensureNetworkPolicy_equal_no_write:
  assumes "getNetworkPolicy c (bnpNamespace resource) (NetworkPolicyName resource) = Found existing"
    and "IsControlledBy existing resource"
    and "networkPoliciesEqual existing (buildNetworkPolicy resource cidrs)"
  shows "ensureNetworkPolicy c resource cidrs = ([], None)
         \<and> ensureNetworkPolicy
              (c\<lparr>getNetworkPolicy := (\<lambda>ns n. Found (existing\<lparr>npLabels := labels, npAnnotations := annotations\<rparr>))\<rparr>)
              resource cidrs = ([], None)
         \<and> networkPoliciesEqual existing (buildNetworkPolicy resource cidrs) =
             (sort (npsPolicyTypes (npSpec existing)) = sort (npsPolicyTypes (npSpec (buildNetworkPolicy resource cidrs)))
              \<and> networkPolicyIngressEqual (npsIngress (npSpec existing)) (npsIngress (npSpec (buildNetworkPolicy resource cidrs)))
              \<and> networkPolicyEgressEqual (npsEgress (npSpec existing)) (npsEgress (npSpec (buildNetworkPolicy resource cidrs)))
              \<and> selectorsEqual (npsPodSelector (npSpec existing)) (npsPodSelector (npSpec (buildNetworkPolicy resource cidrs))))"
proof (intro conjI)
  show "ensureNetworkPolicy c resource cidrs = ([], None)"
    using assms by (simp add: ensureNetworkPolicy_def Let_def buildNetworkPolicy_key)
  have "IsControlledBy (existing\<lparr>npLabels := labels, npAnnotations := annotations\<rparr>) resource"
    using assms(2) by (simp add: IsControlledBy_def)
  moreover have "networkPoliciesEqual (existing\<lparr>npLabels := labels, npAnnotations := annotations\<rparr>)
                   (buildNetworkPolicy resource cidrs)"
    using assms(3) by (simp add: networkPoliciesEqual_char)
  ultimately show "ensureNetworkPolicy
              (c\<lparr>getNetworkPolicy := (\<lambda>ns n. Found (existing\<lparr>npLabels := labels, npAnnotations := annotations\<rparr>))\<rparr>)
              resource cidrs = ([], None)"
    by (simp add: ensureNetworkPolicy_def Let_def)
  show "networkPoliciesEqual existing (buildNetworkPolicy resource cidrs) =
             (sort (npsPolicyTypes (npSpec existing)) = sort (npsPolicyTypes (npSpec (buildNetworkPolicy resource cidrs)))
              \<and> networkPolicyIngressEqual (npsIngress (npSpec existing)) (npsIngress (npSpec (buildNetworkPolicy resource cidrs)))
              \<and> networkPolicyEgressEqual (npsEgress (npSpec existing)) (npsEgress (npSpec (buildNetworkPolicy resource cidrs)))
              \<and> selectorsEqual (npsPodSelector (npSpec existing)) (npsPodSelector (npSpec (buildNetworkPolicy resource cidrs))))"
    by (rule networkPoliciesEqual_char)
qed


theorem ensureNetworkPolicy_equal_no_write_witness:
  "(let r = \<lparr>bnpName = ''sample'', bnpNamespace = ''default'', bnpUID = ''uid-1'', bnpAnnotations = [],
            bnpSpec = \<lparr>specPodSelector = None, specPolicyTypes = [], specIngress = None,
                       specEgress = None, specProviders = [],
                       specCustomCIDRs = [], specSyncPeriod = 0\<rparr>\<rparr>;
        e = \<lparr>npName = ''sample-allow-bots'', npNamespace = ''default'',
            npLabels = [(''team'', ''edge'')], npAnnotations = [],
            npOwnerReferences = [\<lparr>orUID = ''uid-1'', orController = Some True\<rparr>],
            npSpec = \<lparr>npsPodSelector = \<lparr>MatchLabels = [], MatchExpressions = []\<rparr>,
                      npsPolicyTypes = [''Ingress''],
                      npsIngress = [\<lparr>From = [\<lparr>peerIPBlock = Some \<lparr>CIDR = ''10.0.0.0/24'', Except = []\<rparr>\<rparr>]\<rparr>],
                      npsEgress = []\<rparr>\<rparr>;
        c = \<lparr>getBotNetworkPolicy = (\<lambda>ns n. Found r), getNetworkPolicy = (\<lambda>ns n. Found e),
            createOutcome = (\<lambda>np. None), updateOutcome = (\<lambda>np. None),
            schemeKnowsOwner = True\<rparr>
    in getNetworkPolicy c (bnpNamespace r) (NetworkPolicyName r) = Found e
       \<and> IsControlledBy e r
       \<and> networkPoliciesEqual e (buildNetworkPolicy r [''10.0.0.0/24''])
       \<and> npLabels e \<noteq> npLabels (buildNetworkPolicy r [''10.0.0.0/24''])
       \<and> ensureNetworkPolicy c r [''10.0.0.0/24''] = ([], None))"
proof -
  let ?r = "\<lparr>bnpName = ''sample'', bnpNamespace = ''default'', bnpUID = ''uid-1'', bnpAnnotations = [],
            bnpSpec = \<lparr>specPodSelector = None, specPolicyTypes = [], specIngress = None,
                       specEgress = None, specProviders = [],
                       specCustomCIDRs = [], specSyncPeriod = 0\<rparr>\<rparr>"
  let ?e = "\<lparr>npName = ''sample-allow-bots'', npNamespace = ''default'',
            npLabels = [(''team'', ''edge'')], npAnnotations = [],
            npOwnerReferences = [\<lparr>orUID = ''uid-1'', orController = Some True\<rparr>],
            npSpec = \<lparr>npsPodSelector = \<lparr>MatchLabels = [], MatchExpressions = []\<rparr>,
                      npsPolicyTypes = [''Ingress''],
                      npsIngress = [\<lparr>From = [\<lparr>peerIPBlock = Some \<lparr>CIDR = ''10.0.0.0/24'', Except = []\<rparr>\<rparr>]\<rparr>],
                      npsEgress = []\<rparr>\<rparr>"
  let ?c = "\<lparr>getBotNetworkPolicy = (\<lambda>ns n. Found ?r), getNetworkPolicy = (\<lambda>ns n. Found ?e),
            createOutcome = (\<lambda>np. None), updateOutcome = (\<lambda>np. None),
            schemeKnowsOwner = True\<rparr>"
  have h1: "getNetworkPolicy ?c (bnpNamespace ?r) (NetworkPolicyName ?r) = Found ?e" by simp
  have h2: "IsControlledBy ?e ?r" by (simp add: IsControlledBy_def)
  have d: "npSpec (buildNetworkPolicy ?r [''10.0.0.0/24'']) = npSpec ?e"
    by (simp add: buildNetworkPolicy_def Let_def determinePolicyTypes_def PolicyTypeIngress_def
          IngressEnabled_def EgressEnabled_def)
  have h3: "networkPoliciesEqual ?e (buildNetworkPolicy ?r [''10.0.0.0/24''])"
    unfolding networkPoliciesEqual_def d
    by (simp add: networkPolicyIngressEqual_def networkPolicyEgressEqual_def networkPolicyPeersEqual_def
          peerEqual_def equalStringSlices_def selectorsEqual_def)
  have l: "npLabels ?e \<noteq> npLabels (buildNetworkPolicy ?r [''10.0.0.0/24''])"
    by (simp add: buildNetworkPolicy_def Let_def)
  from ensureNetworkPolicy_equal_no_write[OF h1 h2 h3] h1 h2 h3 l
  show ?thesis unfolding Let_def by blast
qed

section \<open>Properties of the aws selector\<close>











section \<open>Properties of the validation of provider declarations\<close>





section \<open>Properties of the github selector\<close>

lemma staticFetch_never_empty: "staticFetch w url selector \<noteq> Inr []"
proof
  assume "staticFetch w url selector = Inr []"
  then have "Fetch w (StaticHTTPProvider url selector) = Inr []" by simp
  then obtain raw where "sanitize raw = Inr []" using Fetch_sanitized by blast
  then show False using sanitize_Inr_trimmed by blast
qed

lemma githubSelectorWithRoles_never_empty: "githubSelectorWithRoles data roles \<noteq> Inr []"
  by (auto simp: githubSelectorWithRoles_def Let_def)

lemma hooks_key: "ToLower (TrimSpace ''hooks'') = ''hooks''"
  by (simp add: ToLower_def toLowerChar_def TrimSpace_def isSpace_def)

lemma githubSelector_empty_hooks_array:
  assumes "map_of data ''hooks'' = Some (JArr [])"
  shows "githubSelector data = Inr []"
proof -
  have "asArray data ''hooks'' = Some []" using assms by (simp add: asArray_def)
  then have "githubSelectorWithRoles data [] = Inl (NoCIDRsFoundForRoles [''hooks''])"
    by (simp add: githubSelectorWithRoles_def hooks_key)
  then show ?thesis using assms by (simp add: githubSelector_def containsNoCIDRsFound_def)
qed

lemma FromSpec_github:
  assumes "ToLower (psName spec) = ''github''"
  shows "FromSpec f namespace spec =
           Inr (StaticHTTPProvider
                  (case psGitHub spec of
                     Some g \<Rightarrow> if ghURL g \<noteq> [] then ghURL g else githubEndpoint f
                   | None \<Rightarrow> githubEndpoint f)
                  (\<lambda>data. githubSelectorWithRoles data
                            (case psGitHub spec of Some g \<Rightarrow> ghRoles g | None \<Rightarrow> [])))"
  using assms by (simp add: FromSpec_def Validate_def Let_def)

text \<open>
  C5, as stated, fails: the provider that the factory builds for a \<open>github\<close>
  declaration without roles, fetching a document whose \<open>hooks\<close> is an empty array,
  fails with the no-CIDRs-found error.
\<close>

theorem github_empty_hooks_counterexample:
  "(case FromSpec (NewFactory True) ''default''
           \<lparr>psName = ''github'', psGoogle = None, psAWS = None, psGitHub = None,
            psConfigMap = None, psJSONEndpoint = None\<rparr> of
      Inr (StaticHTTPProvider url selector) \<Rightarrow>
        staticFetch \<lparr>httpDo = (\<lambda>u headers. Inr (200, Some (JObj [(''hooks'', JArr [])]))),
                     getSecret = (\<lambda>ns n. Inr []), getConfigMap = (\<lambda>ns n. Inr [])\<rparr>
          url selector
    | _ \<Rightarrow> Inr []) = Inl (NoCIDRsFoundForRoles [''hooks''])"
  by (simp add: FromSpec_def Validate_def Let_def ToLower_def toLowerChar_def staticFetch_def
        decodeObject_def githubSelectorWithRoles_def asArray_def TrimSpace_def isSpace_def)

text \<open>
  C5, amended: the leniency is in the function \<open>githubSelector\<close> alone, which returns
  the empty list without error when \<open>hooks\<close> is an empty array.  In the loop over the
  roles a role whose key is missing (or is not an array) is skipped.
  \<open>githubSelectorWithRoles\<close> never returns the empty list: with no element extracted
  it returns an error, for the default role as for any other roles.  The factory binds
  \<open>githubSelectorWithRoles\<close> for every \<open>github\<close> declaration, and the \<open>Fetch\<close> of a
  static HTTP provider never returns the empty list, whatever its selector.
\<close>

theorem githubSelector_leniency:
  "(map_of data ''hooks'' = Some (JArr []) \<longrightarrow> githubSelector data = Inr [])
   \<and> (asArray data (ToLower (TrimSpace role)) = None \<longrightarrow>
        githubRoles data (role # rest) results = githubRoles data rest results)
   \<and> githubSelectorWithRoles data roles \<noteq> Inr []
   \<and> (githubRoles data (if roles = [] then [''hooks''] else roles) [] = [] \<longrightarrow>
        githubSelectorWithRoles data roles =
          Inl (NoCIDRsFoundForRoles (if roles = [] then [''hooks''] else roles)))
   \<and> (ToLower (psName spec) = ''github'' \<longrightarrow>
        FromSpec f namespace spec =
          Inr (StaticHTTPProvider
                 (case psGitHub spec of
                    Some g \<Rightarrow> if ghURL g \<noteq> [] then ghURL g else githubEndpoint f
                  | None \<Rightarrow> githubEndpoint f)
                 (\<lambda>data. githubSelectorWithRoles data
                           (case psGitHub spec of Some g \<Rightarrow> ghRoles g | None \<Rightarrow> []))))
   \<and> staticFetch w url selector \<noteq> Inr []"
proof (intro conjI impI)
  assume "map_of data ''hooks'' = Some (JArr [])"
  then show "githubSelector data = Inr []" by (rule githubSelector_empty_hooks_array)
next
  assume "asArray data (ToLower (TrimSpace role)) = None"
  then show "githubRoles data (role # rest) results = githubRoles data rest results" by simp
next
  show "githubSelectorWithRoles data roles \<noteq> Inr []" by (rule githubSelectorWithRoles_never_empty)
next
  assume "githubRoles data (if roles = [] then [''hooks''] else roles) [] = []"
  then show "githubSelectorWithRoles data roles =
          Inl (NoCIDRsFoundForRoles (if roles = [] then [''hooks''] else roles))"
    by (simp add: githubSelectorWithRoles_def)
next
  assume "ToLower (psName spec) = ''github''"
  then show "FromSpec f namespace spec =
          Inr (StaticHTTPProvider
                 (case psGitHub spec of
                    Some g \<Rightarrow> if ghURL g \<noteq> [] then ghURL g else githubEndpoint f
                  | None \<Rightarrow> githubEndpoint f)
                 (\<lambda>data. githubSelectorWithRoles data
                           (case psGitHub spec of Some g \<Rightarrow> ghRoles g | None \<Rightarrow> [])))"
    by (rule FromSpec_github)
next
  show "staticFetch w url selector \<noteq> Inr []" by (rule staticFetch_never_empty)
qed

theorem githubSelector_leniency_witness:
  "map_of [(''hooks'', JArr []), (''web'', JArr [JStr ''192.30.252.0/22''])] ''hooks'' = Some (JArr [])
   \<and> githubSelector [(''hooks'', JArr []), (''web'', JArr [JStr ''192.30.252.0/22''])] = Inr []
   \<and> asArray [(''hooks'', JArr []), (''web'', JArr [JStr ''192.30.252.0/22''])] (ToLower (TrimSpace ''Pages'')) = None
   \<and> githubRoles [(''hooks'', JArr []), (''web'', JArr [JStr ''192.30.252.0/22''])] [''Pages'', '' web ''] []
       = [''192.30.252.0/22'']
   \<and> githubSelectorWithRoles [(''hooks'', JArr []), (''web'', JArr [JStr ''192.30.252.0/22''])] []
       = Inl (NoCIDRsFoundForRoles [''hooks''])
   \<and> ToLower ''GitHub'' = ''github''
   \<and> FromSpec (NewFactory True) ''default''
        \<lparr>psName = ''GitHub'', psGoogle = None, psAWS = None, psGitHub = None,
         psConfigMap = None, psJSONEndpoint = None\<rparr>
       = Inr (StaticHTTPProvider ''https://api.github.com/meta'' (\<lambda>data. githubSelectorWithRoles data []))"
proof -
  let ?d = "[(''hooks'', JArr []), (''web'', JArr [JStr ''192.30.252.0/22''])]"
  let ?spec = "\<lparr>psName = ''GitHub'', psGoogle = None, psAWS = None, psGitHub = None,
         psConfigMap = None, psJSONEndpoint = None\<rparr>"
  note t = githubSelector_leniency[of ?d "''Pages''" "['' web '']" "[]" "[]" ?spec "NewFactory True" "''default''"]
  have h1: "map_of ?d ''hooks'' = Some (JArr [])" by simp
  have h2: "asArray ?d (ToLower (TrimSpace ''Pages'')) = None"
    by (simp add: asArray_def ToLower_def toLowerChar_def TrimSpace_def isSpace_def)
  have h3: "ToLower ''GitHub'' = ''github''" by (simp add: ToLower_def toLowerChar_def)
  from t h1 have a: "githubSelector ?d = Inr []" by blast
  from t h2 have "githubRoles ?d [''Pages'', '' web ''] [] = githubRoles ?d ['' web ''] []" by blast
  then have b: "githubRoles ?d [''Pages'', '' web ''] [] = [''192.30.252.0/22'']"
    by (simp add: asArray_def ToLower_def toLowerChar_def TrimSpace_def isSpace_def)
  from t h3 have c: "FromSpec (NewFactory True) ''default'' ?spec
       = Inr (StaticHTTPProvider ''https://api.github.com/meta'' (\<lambda>data. githubSelectorWithRoles data []))"
    by (simp add: NewFactory_def defaultGitHubEndpoint_def)
  have h4: "githubRoles ?d (if [] = ([]::string list) then [''hooks''] else []) [] = []"
    by (simp add: asArray_def hooks_key)
  from t h4 have d: "githubSelectorWithRoles ?d [] = Inl (NoCIDRsFoundForRoles [''hooks''])"
    by simp
  from h1 a h2 b h3 c d show ?thesis by blast
qed

section \<open>The merged CIDR list\<close>

text \<open>
  C1 at a resource without providers whose literal CIDRs are a blank entry and
  \<open>10.0.0.0/24\<close> with white space around it: the merged list holds the empty string.
  The loop over the literal CIDRs inserts the trimmed entry without the test for the
  empty string that the loop over the fetched CIDRs makes: the same two entries
  returned by a provider give the one CIDR.
\<close>

theorem collectCIDRs_blank_custom_cidr:
  "collectCIDRs (\<lambda>provider. Inl ProviderReturnedNoCIDRs)
     \<lparr>bnpName = ''sample'', bnpNamespace = ''default'', bnpUID = ''uid-1'', bnpAnnotations = [],
      bnpSpec = \<lparr>specPodSelector = None, specPolicyTypes = [], specIngress = None,
                 specEgress = None, specProviders = [],
                 specCustomCIDRs = [''  '', '' 10.0.0.0/24 ''], specSyncPeriod = 0\<rparr>\<rparr>
   = ([[], ''10.0.0.0/24''], [], None)
   \<and> collectCIDRs (\<lambda>provider. Inr [''  '', '' 10.0.0.0/24 ''])
     \<lparr>bnpName = ''sample'', bnpNamespace = ''default'', bnpUID = ''uid-1'', bnpAnnotations = [],
      bnpSpec = \<lparr>specPodSelector = None, specPolicyTypes = [], specIngress = None,
                 specEgress = None,
                 specProviders = [\<lparr>psName = ''google'', psGoogle = None, psAWS = None,
                                   psGitHub = None, psConfigMap = None, psJSONEndpoint = None\<rparr>],
                 specCustomCIDRs = [], specSyncPeriod = 0\<rparr>\<rparr>
   = ([''10.0.0.0/24''], [], None)"
  by (simp add: collectCIDRs_def Let_def TrimSpace_def isSpace_def FromSpec_def Validate_def
        ToLower_def toLowerChar_def)

end
